theory Spec2Isabelle
  imports Main
begin

section \<open>Python floats\<close>

text \<open>
  The product price is a Python \<open>float\<close>, an IEEE 754 binary64 number. A finite
  double is kept as sign, integral significand and binary exponent: \<open>Finite s m e\<close>
  stands for \<open>(-1)^s * m * 2^e\<close>. A double has \<open>m < 2^53\<close>, \<open>-1074 \<le> e\<close>
  and a magnitude below \<open>2^1024\<close>.
\<close>

datatype double = Finite bool nat int | Infinity bool | NaN

fun bits :: "nat \<Rightarrow> nat" where
  "bits n = (if n = 0 then 0 else Suc (bits (n div 2)))"

declare bits.simps [simp del]

definition round_half_even :: "nat \<Rightarrow> nat \<Rightarrow> nat" where
  \<comment> \<open>\<open>m / 2^k\<close> rounded to the nearest natural number, ties to the even one\<close>
  "round_half_even m k =
     (if k = 0 then m
      else let q = m div 2 ^ k; r = m mod 2 ^ k; half = 2 ^ (k - 1)
           in if half < r \<or> (r = half \<and> odd q) then q + 1 else q)"

definition round_double :: "bool \<Rightarrow> nat \<Rightarrow> int \<Rightarrow> double" where
  \<comment> \<open>the double nearest to the exact value \<open>(-1)^s * m * 2^e\<close> (round to nearest, ties
      to even): 53 significant bits, exponent at least \<open>-1074\<close>, overflow to infinity\<close>
  "round_double s m e =
     (let k = nat (max (int (bits m) - 53) (max (- 1074 - e) 0));
          m' = round_half_even m k;
          e' = e + int k
      in if 1024 < int (bits m') + e' then Infinity s else Finite s m' e')"

fun fmul :: "double \<Rightarrow> double \<Rightarrow> double" where
  "fmul NaN _ = NaN"
| "fmul _ NaN = NaN"
| "fmul (Infinity s1) (Infinity s2) = Infinity (s1 \<noteq> s2)"
| "fmul (Infinity s1) (Finite s2 m e) = (if m = 0 then NaN else Infinity (s1 \<noteq> s2))"
| "fmul (Finite s1 m e) (Infinity s2) = (if m = 0 then NaN else Infinity (s1 \<noteq> s2))"
| "fmul (Finite s1 m1 e1) (Finite s2 m2 e2) = round_double (s1 \<noteq> s2) (m1 * m2) (e1 + e2)"

definition float_of_int :: "int \<Rightarrow> double" where
  \<comment> \<open>the conversion of an int operand to float; the source only converts 0 and 100\<close>
  "float_of_int i = round_double (i < 0) (nat \<bar>i\<bar>) 0"

definition ge_zero :: "double \<Rightarrow> bool" where
  \<comment> \<open>\<open>x >= 0\<close> on floats: false for NaN, true for both zeros\<close>
  "ge_zero x =
     (case x of
        Finite s m e \<Rightarrow> (if s then m = 0 else True)
      | Infinity s \<Rightarrow> (if s then False else True)
      | NaN \<Rightarrow> False)"

section \<open>Exceptions\<close>

text \<open>
  \<open>HTTPException\<close> is what the handlers raise on purpose, with status code and detail.
  Every other exception leaves the handler uncaught, and the framework answers 500.
\<close>

datatype exn =
    HTTPException nat string
  | InvalidId string
  | TypeError
  | AttributeError
  | OverflowError
  | ValueError
  | IndexError
  | ValidationError

fun http_status :: "exn \<Rightarrow> nat" where
  "http_status (HTTPException code detail) = code"
| "http_status _ = 500"

fun py_int :: "double \<Rightarrow> exn + int" where
  \<comment> \<open>\<open>int(x)\<close> of a float: truncation towards zero; infinities and NaN raise\<close>
  "py_int (Finite s m e) =
     (let q = (if 0 \<le> e then m * 2 ^ nat e else m div 2 ^ nat (- e))
      in Inr (if s then - int q else int q))"
| "py_int (Infinity s) = Inl OverflowError"
| "py_int NaN = Inl ValueError"

fun py_round :: "double \<Rightarrow> exn + int" where
  \<comment> \<open>\<open>round(x)\<close> of a float: the nearest integer, ties to even\<close>
  "py_round (Finite s m e) =
     (let q = (if 0 \<le> e then m * 2 ^ nat e else round_half_even m (nat (- e)))
      in Inr (if s then - int q else int q))"
| "py_round (Infinity s) = Inl OverflowError"
| "py_round NaN = Inl ValueError"

section \<open>Schemas\<close>

record ProductIn =
  title :: string
  description :: "string option"
  price :: double
  compare_at_price :: "double option"
  category :: string
  in_stock :: bool
  stock :: int
  images :: "string list"
  tags :: "string list"

record Product = ProductIn +
  id_str :: string

record CartItem =
  product_id :: string
  quantity :: int

record CheckoutRequest =
  items :: "CartItem list"
  customer_email :: "string option"
  success_url :: string
  cancel_url :: string

section \<open>Stored documents\<close>

text \<open>
  A document of the \<open>product\<close> collection is a dictionary. The handlers read it with
  \<open>get(key, default)\<close>, so every attribute may be absent (\<open>None\<close> here); an attribute
  that is present has the type the schema gives it. The key \<open>_id\<close> is the key of the
  collection, kept beside the document.
\<close>

record document =
  doc_title :: "string option"
  doc_description :: "string option"
  doc_price :: "double option"
  doc_compare_at_price :: "double option"
  doc_category :: "string option"
  doc_in_stock :: "bool option"
  doc_stock :: "int option"
  doc_images :: "string list option"
  doc_tags :: "string list option"

definition model_dump :: "ProductIn \<Rightarrow> document" where
  "model_dump p =
     \<lparr>doc_title = Some (title p), doc_description = description p,
      doc_price = Some (price p), doc_compare_at_price = compare_at_price p,
      doc_category = Some (category p), doc_in_stock = Some (in_stock p),
      doc_stock = Some (stock p), doc_images = Some (images p), doc_tags = Some (tags p)\<rparr>"

section \<open>The payment gateway\<close>

record product_data =
  pd_name :: string
  pd_images :: "string list"

record price_data =
  currency :: string
  product_data :: product_data
  unit_amount :: int

record line_item =
  li_price_data :: price_data
  li_quantity :: int

record session_args =
  payment_method_types :: "string list"
  mode :: string
  line_items :: "line_item list"
  arg_success_url :: string
  arg_cancel_url :: string
  arg_customer_email :: "string option"

text \<open>
  \<open>stripe.checkout.Session.create\<close> either raises an exception \<open>e\<close> (\<open>Inl (str e)\<close>)
  or returns a session, of which the handler reads \<open>url\<close>.
\<close>

type_synonym gateway = "session_args \<Rightarrow> string + string"

definition stripe_at_start :: "string option \<Rightarrow> gateway option \<Rightarrow> gateway option" where
  \<comment> \<open>lines 11-19: \<open>secret\<close> is the environment variable, \<open>sdk\<close> the module when it imports\<close>
  "stripe_at_start secret sdk =
     (case secret of
        None \<Rightarrow> None
      | Some s \<Rightarrow> if s = [] then None else sdk)"

section \<open>The store and what is called\<close>

text \<open>
  \<open>bson.ObjectId\<close> is a library: \<open>ObjectId s\<close> is \<open>None\<close> where the constructor raises
  \<open>InvalidId\<close>, \<open>oid_str\<close> is \<open>str\<close> on a key and \<open>new_oid\<close> the key the store gives
  to an inserted document.
\<close>

record 'k bson =
  ObjectId :: "string \<Rightarrow> 'k option"
  oid_str :: "'k \<Rightarrow> string"
  new_oid :: "'k list \<Rightarrow> 'k"

datatype 'k call =
    FindOne 'k
  | FindFirst
  | FindJson string
  | UpdateOne 'k
  | DeleteOne 'k
  | InsertOne 'k
  | ServerStatus
  | SessionCreate session_args

text \<open>
  \<open>db\<close> is \<open>None\<close> when no database is configured, else the \<open>product\<close> collection in
  insertion order. \<open>calls\<close> records each request sent to the store or to the gateway.
\<close>

record 'k world =
  db :: "('k \<times> document) list option"
  calls :: "'k call list"

definition called :: "'k call \<Rightarrow> 'k world \<Rightarrow> 'k world" where
  "called c w = w\<lparr>calls := calls w @ [c]\<rparr>"

section \<open>Checkout\<close>

definition unit_amount_of :: "document \<Rightarrow> exn + int" where
  \<comment> \<open>line 153: \<open>int(float(prod.get("price", 0)) * 100)\<close>\<close>
  "unit_amount_of prd =
     py_int (fmul (case doc_price prd of None \<Rightarrow> float_of_int 0 | Some p \<Rightarrow> p)
                  (float_of_int 100))"

definition make_line_item :: "document \<Rightarrow> CartItem \<Rightarrow> exn + line_item" where
  \<comment> \<open>lines 153-164\<close>
  "make_line_item prd item =
     (case unit_amount_of prd of
        Inl e \<Rightarrow> Inl e
      | Inr amount \<Rightarrow>
          Inr \<lparr>li_price_data =
                 \<lparr>currency = ''usd'',
                  product_data =
                    \<lparr>pd_name = (case doc_title prd of None \<Rightarrow> ''Product'' | Some t \<Rightarrow> t),
                     pd_images = take 1 (case doc_images prd of None \<Rightarrow> [] | Some l \<Rightarrow> l)\<rparr>,
                  unit_amount = amount\<rparr>,
               li_quantity = quantity item\<rparr>)"

fun build_line_items ::
  "'k bson \<Rightarrow> 'k world \<Rightarrow> line_item list \<Rightarrow> CartItem list \<Rightarrow> (exn + line_item list) \<times> 'k world"
where
  \<comment> \<open>the loop of lines 148-164; the third argument is \<open>line_items\<close> so far\<close>
  "build_line_items B w acc [] = (Inr acc, w)"
| "build_line_items B w acc (item # rest) =
     (case db w of
        None \<Rightarrow> (Inl TypeError, w)
      | Some coll \<Rightarrow>
          (case ObjectId B (product_id item) of
             None \<Rightarrow> (Inl (InvalidId (product_id item)), w)
           | Some k \<Rightarrow>
               (let w' = called (FindOne k) w in
                case map_of coll k of
                  None \<Rightarrow>
                    (Inl (HTTPException 404 (''Product not found: '' @ product_id item)), w')
                | Some prd \<Rightarrow>
                    (case make_line_item prd item of
                       Inl e \<Rightarrow> (Inl e, w')
                     | Inr li \<Rightarrow> build_line_items B w' (acc @ [li]) rest))))"

definition create_checkout_session ::
  "'k bson \<Rightarrow> gateway option \<Rightarrow> 'k world \<Rightarrow> CheckoutRequest \<Rightarrow> (exn + string) \<times> 'k world"
where
  "create_checkout_session B stripe w req =
     (case stripe of
        None \<Rightarrow>
          (Inl (HTTPException 400
             ''Stripe is not configured. Set STRIPE_SECRET_KEY environment variable.''), w)
      | Some create \<Rightarrow>
          (case build_line_items B w [] (items req) of
             (Inl e, w') \<Rightarrow> (Inl e, w')
           | (Inr lis, w') \<Rightarrow>
               (let args = \<lparr>payment_method_types = [''card''], mode = ''payment'',
                            line_items = lis, arg_success_url = success_url req,
                            arg_cancel_url = cancel_url req,
                            arg_customer_email = customer_email req\<rparr>;
                    w'' = called (SessionCreate args) w'
                in case create args of
                     Inl msg \<Rightarrow> (Inl (HTTPException 500 msg), w'')
                   | Inr url \<Rightarrow> (Inr url, w''))))"

fun is_gateway_call :: "'k call \<Rightarrow> bool" where
  "is_gateway_call (SessionCreate args) = True"
| "is_gateway_call _ = False"


definition resolve :: "'k bson \<Rightarrow> ('k \<times> document) list \<Rightarrow> CartItem \<Rightarrow> document option" where
  \<comment> \<open>the product a cart item stands for: its id is a key and the key is in the store\<close>
  "resolve B coll item =
     (case ObjectId B (product_id item) of None \<Rightarrow> None | Some k \<Rightarrow> map_of coll k)"

section \<open>Products\<close>

definition Product_of :: "string \<Rightarrow> document \<Rightarrow> exn + Product" where
  \<comment> \<open>\<open>Product(**doc)\<close> on a serialized document: required fields, defaults and the
      \<open>ge=0\<close> constraints of the schema\<close>
  "Product_of i d =
     (case doc_title d of
        None \<Rightarrow> Inl ValidationError
      | Some t \<Rightarrow>
          (case doc_price d of
             None \<Rightarrow> Inl ValidationError
           | Some p \<Rightarrow>
               if \<not> ge_zero p then Inl ValidationError
               else if (case doc_compare_at_price d of None \<Rightarrow> False | Some c \<Rightarrow> \<not> ge_zero c)
               then Inl ValidationError
               else Inr \<lparr>title = t, description = doc_description d, price = p,
                         compare_at_price = doc_compare_at_price d,
                         category = (case doc_category d of None \<Rightarrow> ''Tea'' | Some c \<Rightarrow> c),
                         in_stock = (case doc_in_stock d of None \<Rightarrow> True | Some b \<Rightarrow> b),
                         stock = (case doc_stock d of None \<Rightarrow> 100 | Some n \<Rightarrow> n),
                         images = (case doc_images d of None \<Rightarrow> [] | Some l \<Rightarrow> l),
                         tags = (case doc_tags d of None \<Rightarrow> [] | Some l \<Rightarrow> l),
                         id_str = i\<rparr>))"

definition serialize_doc :: "'k bson \<Rightarrow> ('k \<times> document) option \<Rightarrow> (string \<times> document) option" where
  \<comment> \<open>lines 34-39: \<open>_id\<close> leaves the document and its string becomes \<open>id\<close>\<close>
  "serialize_doc B doc = (case doc of None \<Rightarrow> None | Some (k, d) \<Rightarrow> Some (oid_str B k, d))"

definition Product_of_serialized :: "(string \<times> document) option \<Rightarrow> exn + Product" where
  \<comment> \<open>\<open>Product(**x)\<close>: unpacking \<open>None\<close> is a TypeError\<close>
  "Product_of_serialized x = (case x of None \<Rightarrow> Inl TypeError | Some (i, d) \<Rightarrow> Product_of i d)"

definition find_one :: "('k \<times> document) list \<Rightarrow> 'k \<Rightarrow> ('k \<times> document) option" where
  "find_one coll k = (case map_of coll k of None \<Rightarrow> None | Some d \<Rightarrow> Some (k, d))"

fun update_one :: "('k \<times> document) list \<Rightarrow> 'k \<Rightarrow> document \<Rightarrow> nat \<times> ('k \<times> document) list" where
  \<comment> \<open>\<open>$set\<close> of a whole dump on the first match; the first component is \<open>matched_count\<close>\<close>
  "update_one [] k v = (0, [])"
| "update_one ((k', d) # coll) k v =
     (if k' = k then (1, (k', v) # coll)
      else (case update_one coll k v of (n, coll') \<Rightarrow> (n, (k', d) # coll')))"

fun delete_one :: "('k \<times> document) list \<Rightarrow> 'k \<Rightarrow> nat \<times> ('k \<times> document) list" where
  \<comment> \<open>removes the first match; the first component is \<open>deleted_count\<close>\<close>
  "delete_one [] k = (0, [])"
| "delete_one ((k', d) # coll) k =
     (if k' = k then (1, coll)
      else (case delete_one coll k of (n, coll') \<Rightarrow> (n, (k', d) # coll')))"

definition get_product :: "'k bson \<Rightarrow> 'k world \<Rightarrow> string \<Rightarrow> (exn + Product) \<times> 'k world" where
  \<comment> \<open>lines 113-119\<close>
  "get_product B w pid =
     (case db w of
        None \<Rightarrow> (Inl TypeError, w)
      | Some coll \<Rightarrow>
          (case ObjectId B pid of
             None \<Rightarrow> (Inl (InvalidId pid), w)
           | Some k \<Rightarrow>
               (let w' = called (FindOne k) w in
                case find_one coll k of
                  None \<Rightarrow> (Inl (HTTPException 404 ''Product not found''), w')
                | Some doc \<Rightarrow> (Product_of_serialized (serialize_doc B (Some doc)), w'))))"

definition update_product ::
  "'k bson \<Rightarrow> 'k world \<Rightarrow> string \<Rightarrow> ProductIn \<Rightarrow> (exn + Product) \<times> 'k world"
where
  \<comment> \<open>lines 121-128\<close>
  "update_product B w pid payload =
     (case db w of
        None \<Rightarrow> (Inl TypeError, w)
      | Some coll \<Rightarrow>
          (case ObjectId B pid of
             None \<Rightarrow> (Inl (InvalidId pid), w)
           | Some k \<Rightarrow>
               (case update_one coll k (model_dump payload) of
                  (matched_count, coll') \<Rightarrow>
                    (let w' = called (UpdateOne k) (w\<lparr>db := Some coll'\<rparr>) in
                     if matched_count = 0
                     then (Inl (HTTPException 404 ''Product not found''), w')
                     else (Product_of_serialized (serialize_doc B (find_one coll' k)),
                           called (FindOne k) w')))))"

definition delete_product :: "'k bson \<Rightarrow> 'k world \<Rightarrow> string \<Rightarrow> (exn + bool) \<times> 'k world" where
  \<comment> \<open>lines 130-136; the answer \<open>{"success": True}\<close> is \<open>Inr True\<close>\<close>
  "delete_product B w pid =
     (case db w of
        None \<Rightarrow> (Inl TypeError, w)
      | Some coll \<Rightarrow>
          (case ObjectId B pid of
             None \<Rightarrow> (Inl (InvalidId pid), w)
           | Some k \<Rightarrow>
               (case delete_one coll k of
                  (deleted_count, coll') \<Rightarrow>
                    (let w' = called (DeleteOne k) (w\<lparr>db := Some coll'\<rparr>) in
                     if deleted_count = 0
                     then (Inl (HTTPException 404 ''Product not found''), w')
                     else (Inr True, w')))))"

subsection \<open>Creation\<close>

definition create_document ::
  "'k bson \<Rightarrow> ('k \<times> document) list \<Rightarrow> document \<Rightarrow> 'k \<times> ('k \<times> document) list"
where
  \<comment> \<open>Modelled from the spec: \<open>create_document\<close> of the module \<open>database\<close> is not among
      the sources. The spec (4.2): \<open>create(collection, attributes) -> internal_key\<close>
      assigns a new unique key, and a later read with that key returns the stored
      attributes unchanged.\<close>
  "create_document B coll data = (let k = new_oid B (map fst coll) in (k, coll @ [(k, data)]))"

text \<open>
  Line 104 takes the class of the \<open>localTime\<close> entry of the server status, a
  \<open>datetime.datetime\<close>, then the second class of its method resolution order, which is
  \<open>datetime.date\<close>, and asks it for the attribute \<open>from_json\<close>. No class of that
  hierarchy defines one, so the lookup raises AttributeError.
\<close>

datatype pyclass = Class_datetime | Class_date | Class_object

fun mro :: "pyclass \<Rightarrow> pyclass list" where
  "mro Class_datetime = [Class_datetime, Class_date, Class_object]"
| "mro Class_date = [Class_date, Class_object]"
| "mro Class_object = [Class_object]"

fun defines_from_json :: "pyclass \<Rightarrow> bool" where
  "defines_from_json Class_datetime = False"
| "defines_from_json Class_date = False"
| "defines_from_json Class_object = False"

definition from_json_of_localTime_base :: "exn + pyclass" where
  \<comment> \<open>\<open>localTime.__class__.__mro__[1].from_json\<close>: the class that supplies the attribute\<close>
  "from_json_of_localTime_base =
     (case drop 1 (mro Class_datetime) of
        [] \<Rightarrow> Inl IndexError
      | c # _ \<Rightarrow>
          (case filter defines_from_json (mro c) of
             [] \<Rightarrow> Inl AttributeError
           | c' # _ \<Rightarrow> Inr c'))"

definition create_product :: "'k bson \<Rightarrow> 'k world \<Rightarrow> ProductIn \<Rightarrow> (exn + Product) \<times> 'k world" where
  \<comment> \<open>lines 98-111\<close>
  "create_product B w payload =
     (case db w of
        None \<Rightarrow> (Inl (HTTPException 500 ''Database not configured''), w)
      | Some coll \<Rightarrow>
          (case create_document B coll (model_dump payload) of
             (k, coll') \<Rightarrow>
               (let new_id = oid_str B k;
                    w1 = called (InsertOne k) (w\<lparr>db := Some coll'\<rparr>);
                    w2 = called ServerStatus w1
                in case from_json_of_localTime_base of
                     Inl e \<Rightarrow> (Inl e, w2)
                   | Inr c \<Rightarrow>
                       (let w3 = called (FindJson new_id) w2 in
                        case ObjectId B new_id of
                          Some k' \<Rightarrow>
                            (Product_of_serialized (serialize_doc B (find_one coll' k')),
                             called (FindOne k') w3)
                        | None \<Rightarrow>
                            (Product_of_serialized
                               (serialize_doc B (case coll' of [] \<Rightarrow> None | x # _ \<Rightarrow> Some x)),
                             called FindFirst w3)))))"

section \<open>Sample data\<close>

text \<open>
  A codec for the examples: the keys are the strings of 24 hexadecimal digits, written
  in lower case.
\<close>

definition hex_digit :: "char \<Rightarrow> bool" where
  "hex_digit c = (c \<in> set ''0123456789abcdef'')"

definition sample_bson :: "string bson" where
  "sample_bson =
     \<lparr>ObjectId = (\<lambda>s. if length s = 24 \<and> list_all hex_digit s then Some s else None),
      oid_str = (\<lambda>k. k),
      new_oid = (\<lambda>ks. replicate (23 - length ks) CHR ''0'' @ replicate (Suc (length ks)) CHR ''1'')\<rparr>"

definition price_9_99 :: double where
  \<comment> \<open>the double nearest to 9.99\<close>
  "price_9_99 = Finite False 5623870034678907 (- 49)"

definition price_19_99 :: double where
  \<comment> \<open>the double nearest to 19.99\<close>
  "price_19_99 = Finite False 5626684784446013 (- 48)"

definition tea :: ProductIn where
  "tea = \<lparr>title = ''Green Tea'', description = None, price = price_9_99,
          compare_at_price = None, category = ''Tea'', in_stock = True, stock = 100,
          images = [''a.png'', ''b.png''], tags = []\<rparr>"

definition id_tea :: string where
  "id_tea = ''000000000000000000000001''"

definition id_absent :: string where
  "id_absent = ''00000000000000000000000f''"

definition shop :: "string world" where
  "shop = \<lparr>db = Some [(id_tea, model_dump tea)], calls = []\<rparr>"

definition tea_19_99 :: ProductIn where
  \<comment> \<open>the same product sold at 19.99\<close>
  "tea_19_99 = tea\<lparr>price := price_19_99\<rparr>"

definition shop_19_99 :: "string world" where
  "shop_19_99 = \<lparr>db = Some [(id_tea, model_dump tea_19_99)], calls = []\<rparr>"

definition sample_gateway :: gateway where
  "sample_gateway args = Inr ''https://pay.example/session''"

definition bare :: document where
  \<comment> \<open>a document with no attribute at all\<close>
  "bare = \<lparr>doc_title = None, doc_description = None, doc_price = None,
           doc_compare_at_price = None, doc_category = None, doc_in_stock = None,
           doc_stock = None, doc_images = None, doc_tags = None\<rparr>"

definition failing_gateway :: gateway where
  "failing_gateway args = Inl ''card_declined''"

definition cart_tea :: CartItem where
  "cart_tea = \<lparr>product_id = id_tea, quantity = 2\<rparr>"

definition cart_absent :: CartItem where
  "cart_absent = \<lparr>product_id = id_absent, quantity = 1\<rparr>"

definition cart_malformed :: CartItem where
  "cart_malformed = \<lparr>product_id = ''xyz'', quantity = 1\<rparr>"

definition request :: "CartItem list \<Rightarrow> CheckoutRequest" where
  "request its =
     \<lparr>items = its, customer_email = Some ''ann@example.org'',
      success_url = ''https://shop.example/ok'', cancel_url = ''https://shop.example/back''\<rparr>"

definition tea_line_item :: line_item where
  "tea_line_item =
     \<lparr>li_price_data =
        \<lparr>currency = ''usd'',
         product_data = \<lparr>pd_name = ''Green Tea'', pd_images = [''a.png'']\<rparr>,
         unit_amount = 999\<rparr>,
      li_quantity = 2\<rparr>"

section \<open>Properties of the loop and of the store\<close>

lemma db_called [simp]: "db (called c w) = db w"
  by (simp add: called_def)

lemma calls_called [simp]: "calls (called c w) = calls w @ [c]"
  by (simp add: called_def)

lemma build_db: "build_line_items B w acc its = (r, w') \<Longrightarrow> db w' = db w"
proof (induction its arbitrary: w acc)
  case Nil
  then show ?case by simp
next
  case (Cons item rest)
  then show ?case
    by (auto simp: Let_def split: option.splits sum.splits)
qed

lemma build_calls:
  "build_line_items B w acc its = (r, w') \<Longrightarrow> \<exists>ks. calls w' = calls w @ map FindOne ks"
proof (induction its arbitrary: w acc)
  case Nil
  then show ?case by simp
next
  case (Cons item rest)
  show ?case
  proof (cases "db w")
    case None
    with Cons.prems show ?thesis by simp
  next
    case (Some coll)
    show ?thesis
    proof (cases "ObjectId B (product_id item)")
      case None
      with Some Cons.prems show ?thesis by simp
    next
      case k: (Some k)
      have one: "calls (called (FindOne k) w) = calls w @ map FindOne [k]" by simp
      show ?thesis
      proof (cases "map_of coll k")
        case None
        with Some k Cons.prems have "w' = called (FindOne k) w" by (simp add: Let_def)
        with one show ?thesis by blast
      next
        case d: (Some d)
        show ?thesis
        proof (cases "make_line_item d item")
          case (Inl e)
          with Some k d Cons.prems have "w' = called (FindOne k) w" by (simp add: Let_def)
          with one show ?thesis by blast
        next
          case (Inr li)
          with Some k d Cons.prems
          have "build_line_items B (called (FindOne k) w) (acc @ [li]) rest = (r, w')"
            by (simp add: Let_def)
          from Cons.IH [OF this] obtain ks
            where "calls w' = calls (called (FindOne k) w) @ map FindOne ks" by blast
          then have "calls w' = calls w @ map FindOne (k # ks)" by simp
          then show ?thesis by blast
        qed
      qed
    qed
  qed
qed

lemma build_append:
  "build_line_items B w acc (xs @ ys) =
     (case build_line_items B w acc xs of
        (Inl e, w') \<Rightarrow> (Inl e, w')
      | (Inr acc', w') \<Rightarrow> build_line_items B w' acc' ys)"
  by (induction xs arbitrary: w acc) (auto simp: Let_def split: option.splits sum.splits)

lemma build_success:
  "db w = Some coll \<Longrightarrow> build_line_items B w acc its = (Inr lis, w') \<Longrightarrow>
   \<exists>new. lis = acc @ new \<and>
     list_all2 (\<lambda>item li. \<exists>d. resolve B coll item = Some d \<and> make_line_item d item = Inr li)
       its new"
proof (induction its arbitrary: w acc)
  case Nil
  then show ?case by simp
next
  case (Cons item rest)
  from Cons.prems obtain k d li
    where k: "ObjectId B (product_id item) = Some k" and d: "map_of coll k = Some d"
      and li: "make_line_item d item = Inr li"
      and rest: "build_line_items B (called (FindOne k) w) (acc @ [li]) rest = (Inr lis, w')"
    by (auto simp: Let_def split: option.splits sum.splits)
  have "db (called (FindOne k) w) = Some coll" using Cons.prems(1) by simp
  from Cons.IH [OF this rest] obtain new
    where new: "lis = (acc @ [li]) @ new"
      and all: "list_all2 (\<lambda>item li. \<exists>d. resolve B coll item = Some d \<and> make_line_item d item = Inr li) rest new"
    by blast
  have "resolve B coll item = Some d" using k d by (simp add: resolve_def)
  with li all new show ?case by auto
qed

lemma build_total:
  "db w = Some coll \<Longrightarrow>
   \<forall>item\<in>set its. \<exists>d li. resolve B coll item = Some d \<and> make_line_item d item = Inr li \<Longrightarrow>
   \<exists>lis w'. build_line_items B w acc its = (Inr lis, w')"
proof (induction its arbitrary: w acc)
  case Nil
  then show ?case by simp
next
  case (Cons item rest)
  from Cons.prems(2) obtain d li
    where r: "resolve B coll item = Some d" and li: "make_line_item d item = Inr li"
    by auto
  from r obtain k where k: "ObjectId B (product_id item) = Some k" and d: "map_of coll k = Some d"
    by (auto simp: resolve_def split: option.splits)
  have "db (called (FindOne k) w) = Some coll" using Cons.prems(1) by simp
  moreover have "\<forall>item\<in>set rest. \<exists>d li. resolve B coll item = Some d \<and> make_line_item d item = Inr li"
    using Cons.prems(2) by simp
  ultimately obtain lis w'
    where "build_line_items B (called (FindOne k) w) (acc @ [li]) rest = (Inr lis, w')"
    using Cons.IH by blast
  with Cons.prems(1) k d li show ?case by (simp add: Let_def)
qed

lemma filter_gateway_FindOne [simp]: "filter is_gateway_call (map FindOne ks) = []"
  by (induction ks) simp_all

lemma build_no_gateway_call:
  "build_line_items B w acc its = (r, w') \<Longrightarrow>
   filter is_gateway_call (calls w') = filter is_gateway_call (calls w)"
proof -
  assume "build_line_items B w acc its = (r, w')"
  then obtain ks where "calls w' = calls w @ map FindOne ks"
    using build_calls by blast
  then show ?thesis by simp
qed

lemma update_one_absent: "map_of coll k = None \<Longrightarrow> update_one coll k v = (0, coll)"
  by (induction coll) (auto split: if_splits)

lemma delete_one_absent: "map_of coll k = None \<Longrightarrow> delete_one coll k = (0, coll)"
  by (induction coll) (auto split: if_splits)

lemma update_one_matched: "fst (update_one coll k v) = 0 \<longleftrightarrow> map_of coll k = None"
  by (induction coll) (auto split: prod.splits)

lemma delete_one_deleted: "fst (delete_one coll k) = 0 \<longleftrightarrow> map_of coll k = None"
  by (induction coll) (auto split: prod.splits)

lemma create_product_line_104:
  "db w = Some coll \<Longrightarrow> fst (create_product B w payload) = Inl AttributeError"
  by (simp add: create_product_def from_json_of_localTime_base_def Let_def split: prod.splits)

lemma build_found_keys:
  "build_line_items B w acc its = (Inr lis, w') \<Longrightarrow>
   \<exists>ks. map (\<lambda>item. ObjectId B (product_id item)) its = map Some ks \<and>
        calls w' = calls w @ map FindOne ks"
proof (induction its arbitrary: w acc)
  case Nil
  then show ?case by simp
next
  case (Cons item rest)
  from Cons.prems obtain coll k d li
    where k: "ObjectId B (product_id item) = Some k"
      and rest: "build_line_items B (called (FindOne k) w) (acc @ [li]) rest = (Inr lis, w')"
    by (auto simp: Let_def split: option.splits sum.splits)
  from Cons.IH [OF rest] obtain ks
    where ks: "map (\<lambda>item. ObjectId B (product_id item)) rest = map Some ks"
      and c: "calls w' = calls (called (FindOne k) w) @ map FindOne ks"
    by blast
  have "map (\<lambda>item. ObjectId B (product_id item)) (item # rest) = map Some (k # ks)"
    using k ks by simp
  moreover have "calls w' = calls w @ map FindOne (k # ks)"
    using c by simp
  ultimately show ?case by blast
qed

lemma build_unresolved:
  assumes "item \<in> set its" and "db w = Some coll" and "resolve B coll item = None"
  shows "\<exists>e w'. build_line_items B w acc its = (Inl e, w')"
proof (cases "build_line_items B w acc its")
  case (Pair r w')
  show ?thesis
  proof (cases r)
    case (Inl e)
    with Pair show ?thesis by simp
  next
    case (Inr lis)
    with Pair assms(2) obtain new
      where "list_all2 (\<lambda>item li. \<exists>d. resolve B coll item = Some d \<and> make_line_item d item = Inr li)
               its new"
      using build_success by blast
    with assms(1) obtain d where "resolve B coll item = Some d"
      by (auto simp: list_all2_conv_all_nth in_set_conv_nth)
    with assms(3) show ?thesis by simp
  qed
qed

lemma make_line_item_total:
  "unit_amount_of d = Inr a \<Longrightarrow> \<exists>li. make_line_item d item = Inr li"
  by (simp add: make_line_item_def)

lemma unit_amount_of_zero: "doc_price d = None \<Longrightarrow> unit_amount_of d = Inr 0"
  by (simp add: unit_amount_of_def float_of_int_def round_double_def round_half_even_def
      bits.simps Let_def)





lemma make_line_item_carries:
  "make_line_item d item = Inr li \<Longrightarrow>
   currency (li_price_data li) = ''usd'' \<and>
   pd_name (product_data (li_price_data li)) =
     (case doc_title d of None \<Rightarrow> ''Product'' | Some t \<Rightarrow> t) \<and>
   pd_images (product_data (li_price_data li)) =
     take 1 (case doc_images d of None \<Rightarrow> [] | Some l \<Rightarrow> l) \<and>
   py_int (fmul (case doc_price d of None \<Rightarrow> float_of_int 0 | Some p \<Rightarrow> p)
                (float_of_int 100)) = Inr (unit_amount (li_price_data li)) \<and>
   li_quantity li = quantity item"
  by (auto simp: make_line_item_def unit_amount_of_def split: sum.splits)

text \<open>
  What the loop returns, position by position: every list it builds has one entry per
  cart item, in cart order, with the currency \<open>usd\<close>, the title and first image of
  the product the item resolves to, the quantity asked for, and as amount the float
  product of the price and 100 cut to an integer by \<open>int\<close>. It builds one whenever every
  item resolves to a product for which that conversion succeeds.
\<close>

lemma line_items_follow_cart:
  assumes "db w = Some coll"
  shows "(\<forall>lis w'. build_line_items B w [] its = (Inr lis, w') \<longrightarrow>
            list_all2
              (\<lambda>item li. \<exists>d. resolve B coll item = Some d \<and>
                 currency (li_price_data li) = ''usd'' \<and>
                 pd_name (product_data (li_price_data li)) =
                   (case doc_title d of None \<Rightarrow> ''Product'' | Some t \<Rightarrow> t) \<and>
                 pd_images (product_data (li_price_data li)) =
                   take 1 (case doc_images d of None \<Rightarrow> [] | Some l \<Rightarrow> l) \<and>
                 py_int (fmul (case doc_price d of None \<Rightarrow> float_of_int 0 | Some p \<Rightarrow> p)
                   (float_of_int 100)) = Inr (unit_amount (li_price_data li)) \<and>
                 li_quantity li = quantity item)
              its lis) \<and>
         ((\<forall>item\<in>set its. \<exists>d a. resolve B coll item = Some d \<and> unit_amount_of d = Inr a) \<longrightarrow>
            (\<exists>lis w'. build_line_items B w [] its = (Inr lis, w')))"
proof (intro conjI allI impI)
  fix lis w'
  assume "build_line_items B w [] its = (Inr lis, w')"
  with assms have
    "list_all2 (\<lambda>item li. \<exists>d. resolve B coll item = Some d \<and> make_line_item d item = Inr li)
       its lis"
    using build_success [of w coll B "[]" its lis w'] by simp
  then show "list_all2
      (\<lambda>item li. \<exists>d. resolve B coll item = Some d \<and>
         currency (li_price_data li) = ''usd'' \<and>
         pd_name (product_data (li_price_data li)) =
           (case doc_title d of None \<Rightarrow> ''Product'' | Some t \<Rightarrow> t) \<and>
         pd_images (product_data (li_price_data li)) =
           take 1 (case doc_images d of None \<Rightarrow> [] | Some l \<Rightarrow> l) \<and>
         py_int (fmul (case doc_price d of None \<Rightarrow> float_of_int 0 | Some p \<Rightarrow> p)
                   (float_of_int 100)) = Inr (unit_amount (li_price_data li)) \<and>
         li_quantity li = quantity item)
      its lis"
    by (rule list_all2_mono) (use make_line_item_carries in blast)
next
  assume "\<forall>item\<in>set its. \<exists>d a. resolve B coll item = Some d \<and> unit_amount_of d = Inr a"
  then have "\<forall>item\<in>set its. \<exists>d li. resolve B coll item = Some d \<and> make_line_item d item = Inr li"
    using make_line_item_total by blast
  with assms show "\<exists>lis w'. build_line_items B w [] its = (Inr lis, w')"
    by (rule build_total)
qed

section \<open>The sample data evaluated\<close>

lemma unit_amount_tea: "unit_amount_of (model_dump tea) = Inr 999"
  by (simp add: unit_amount_of_def model_dump_def tea_def price_9_99_def float_of_int_def
      round_double_def round_half_even_def bits.simps Let_def)

lemma make_line_item_tea: "make_line_item (model_dump tea) cart_tea = Inr tea_line_item"
  using unit_amount_tea
  by (simp add: make_line_item_def model_dump_def tea_def cart_tea_def tea_line_item_def)

lemma ObjectId_tea: "ObjectId sample_bson id_tea = Some id_tea"
  by (simp add: sample_bson_def id_tea_def hex_digit_def)

lemma ObjectId_absent: "ObjectId sample_bson id_absent = Some id_absent"
  by (simp add: sample_bson_def id_absent_def hex_digit_def)

lemma ObjectId_malformed: "ObjectId sample_bson ''xyz'' = None"
  by (simp add: sample_bson_def)

lemma build_tea:
  "build_line_items sample_bson shop [] [cart_tea] = (Inr [tea_line_item], called (FindOne id_tea) shop)"
  using make_line_item_tea ObjectId_tea
  by (simp add: shop_def cart_tea_def Let_def)

lemma unit_amount_tea_19_99: "unit_amount_of (model_dump tea_19_99) = Inr 1998"
  by (simp add: unit_amount_of_def model_dump_def tea_19_99_def tea_def price_19_99_def
      float_of_int_def round_double_def round_half_even_def bits.simps Let_def)

lemma round_tea_19_99: "py_round (fmul price_19_99 (float_of_int 100)) = Inr 1999"
  by (simp add: price_19_99_def float_of_int_def round_double_def round_half_even_def
      bits.simps Let_def)

lemma price_19_99_nearest:
  "price_19_99 = Finite False m (- 48) \<Longrightarrow> \<bar>int m * 100 - 1999 * 2 ^ 48\<bar> * 2 \<le> 100"
  by (simp add: price_19_99_def)

section \<open>The claims\<close>

text \<open>
  C1. The claim: the minor-unit amount of a line item is \<open>round(price * 100)\<close>, and a
  price of 9.99 gives 999. Line 153 converts with \<open>int\<close>, which truncates. The product
  of the double nearest to 19.99 and 100 is the double just below 1999, so the line item
  carries 1998 where rounding gives 1999.
\<close>

theorem unit_amount_truncates_19_99:
  "unit_amount_of (model_dump (tea\<lparr>price := price_19_99\<rparr>)) = Inr 1998 \<and>
   py_round (fmul price_19_99 (float_of_int 100)) = Inr 1999"
  by (simp add: unit_amount_of_def model_dump_def tea_def price_19_99_def float_of_int_def
      round_double_def round_half_even_def bits.simps Let_def)

text \<open>
  C2, as it is stated: whenever some cart item's id does not resolve, the request aborts
  with 404 naming that id. It fails where something earlier ends the request: a malformed
  id before the absent one leaves the handler as an uncaught InvalidId, and without a
  gateway the answer is 400.
\<close>

theorem first_failure_preempts:
  "resolve sample_bson [(id_tea, model_dump tea)] cart_absent = None \<and>
   fst (create_checkout_session sample_bson (Some sample_gateway) shop
          (request [cart_malformed, cart_absent])) = Inl (InvalidId ''xyz'') \<and>
   fst (create_checkout_session sample_bson None shop (request [cart_tea, cart_absent])) =
     Inl (HTTPException 400
        ''Stripe is not configured. Set STRIPE_SECRET_KEY environment variable.'')"
  using ObjectId_absent ObjectId_malformed
  by (simp add: resolve_def create_checkout_session_def request_def cart_absent_def
      cart_malformed_def shop_def id_tea_def id_absent_def)

text \<open>
  C2, amended. Whenever the store is configured and some cart item does not resolve, the
  request ends in an error and the gateway is not called. When moreover the gateway is
  configured, the id of that item is well formed and the loop has got through every item
  before it, the error is 404 with the detail \<open>Product not found: <id>\<close>, raised right
  after the store was asked for that id.
\<close>

theorem unresolved_item_aborts:
  assumes "db w = Some coll" and "item \<in> set (items req)" and "resolve B coll item = None"
  shows "(\<exists>e w'. create_checkout_session B stripe w req = (Inl e, w') \<and>
            filter is_gateway_call (calls w') = filter is_gateway_call (calls w)) \<and>
         (\<forall>create pre post lis w1 k.
            stripe = Some create \<longrightarrow> items req = pre @ item # post \<longrightarrow>
            build_line_items B w [] pre = (Inr lis, w1) \<longrightarrow>
            ObjectId B (product_id item) = Some k \<longrightarrow>
            create_checkout_session B stripe w req =
              (Inl (HTTPException 404 (''Product not found: '' @ product_id item)),
               called (FindOne k) w1))"
proof
  show "\<exists>e w'. create_checkout_session B stripe w req = (Inl e, w') \<and>
          filter is_gateway_call (calls w') = filter is_gateway_call (calls w)"
  proof (cases stripe)
    case None
    then show ?thesis by (simp add: create_checkout_session_def)
  next
    case (Some create)
    from assms obtain e w' where b: "build_line_items B w [] (items req) = (Inl e, w')"
      using build_unresolved by blast
    then have "filter is_gateway_call (calls w') = filter is_gateway_call (calls w)"
      by (rule build_no_gateway_call)
    with Some b show ?thesis by (simp add: create_checkout_session_def)
  qed
next
  show "\<forall>create pre post lis w1 k.
          stripe = Some create \<longrightarrow> items req = pre @ item # post \<longrightarrow>
          build_line_items B w [] pre = (Inr lis, w1) \<longrightarrow>
          ObjectId B (product_id item) = Some k \<longrightarrow>
          create_checkout_session B stripe w req =
            (Inl (HTTPException 404 (''Product not found: '' @ product_id item)),
             called (FindOne k) w1)"
  proof (intro allI impI)
    fix create pre post lis w1 k
    assume s: "stripe = Some create" and i: "items req = pre @ item # post"
      and b: "build_line_items B w [] pre = (Inr lis, w1)"
      and k: "ObjectId B (product_id item) = Some k"
    have "db w1 = Some coll" using build_db [OF b] assms(1) by simp
    moreover have "map_of coll k = None" using assms(3) k by (simp add: resolve_def)
    ultimately have "build_line_items B w [] (items req) =
        (Inl (HTTPException 404 (''Product not found: '' @ product_id item)),
         called (FindOne k) w1)"
      using i b k by (simp add: build_append Let_def)
    with s show "create_checkout_session B stripe w req =
        (Inl (HTTPException 404 (''Product not found: '' @ product_id item)),
         called (FindOne k) w1)"
      by (simp add: create_checkout_session_def)
  qed
qed

theorem unresolved_item_aborts_witness:
  "create_checkout_session sample_bson (Some sample_gateway) shop
     (request [cart_tea, cart_absent]) =
     (Inl (HTTPException 404 ''Product not found: 00000000000000000000000f''),
      \<lparr>db = Some [(id_tea, model_dump tea)], calls = [FindOne id_tea, FindOne id_absent]\<rparr>)"
proof -
  have a: "db shop = Some [(id_tea, model_dump tea)]" by (simp add: shop_def)
  have b: "cart_absent \<in> set (items (request [cart_tea, cart_absent]))"
    by (simp add: request_def)
  have c: "resolve sample_bson [(id_tea, model_dump tea)] cart_absent = None"
    using ObjectId_absent by (simp add: resolve_def cart_absent_def id_tea_def id_absent_def)
  have i: "items (request [cart_tea, cart_absent]) = [cart_tea] @ cart_absent # []"
    by (simp add: request_def)
  have k: "ObjectId sample_bson (product_id cart_absent) = Some id_absent"
    using ObjectId_absent by (simp add: cart_absent_def)
  have "create_checkout_session sample_bson (Some sample_gateway) shop
          (request [cart_tea, cart_absent]) =
        (Inl (HTTPException 404 (''Product not found: '' @ product_id cart_absent)),
         called (FindOne id_absent) (called (FindOne id_tea) shop))"
    using unresolved_item_aborts [OF a b c, of "Some sample_gateway"] i build_tea k
    by blast
  then show ?thesis
    by (simp add: cart_absent_def id_absent_def called_def shop_def)
qed

text \<open>
  C3. The claim: create, then get on the returned identifier, returns the payload with
  the new identifier. Line 104 raises AttributeError after the document has been
  inserted, so \<open>create_product\<close> returns no product and no identifier to get.
\<close>

theorem create_product_raises:
  "fst (create_product sample_bson shop tea) = Inl AttributeError \<and>
   map_option (map snd) (db (snd (create_product sample_bson shop tea))) =
     Some [model_dump tea, model_dump tea]"
  by (simp add: create_product_def shop_def from_json_of_localTime_base_def
      create_document_def Let_def called_def)

text \<open>
  C4, as it is stated: a malformed identifier is answered with status 404. No handler
  catches the InvalidId that \<open>ObjectId\<close> raises, so the answer is 500.
\<close>

theorem malformed_id_not_404:
  "ObjectId sample_bson ''xyz'' = None \<and>
   fst (get_product sample_bson shop ''xyz'') = Inl (InvalidId ''xyz'') \<and>
   http_status (InvalidId ''xyz'') \<noteq> 404"
  using ObjectId_malformed by (simp add: get_product_def shop_def)

text \<open>
  C4, amended. With a configured store, a malformed identifier makes get, update and
  delete leave with an uncaught InvalidId (status 500) before any call to the store.
  Checkout does the same when the loop reaches the item with that identifier; until then
  it has asked the store for the items before it, and for nothing else.
\<close>

theorem malformed_id_uncaught:
  assumes "db w = Some coll" and "ObjectId B pid = None"
    and "items req = pre @ item # post" and "product_id item = pid"
    and "build_line_items B w [] pre = (Inr lis, w')"
  shows "get_product B w pid = (Inl (InvalidId pid), w) \<and>
         update_product B w pid payload = (Inl (InvalidId pid), w) \<and>
         delete_product B w pid = (Inl (InvalidId pid), w) \<and>
         create_checkout_session B (Some create) w req = (Inl (InvalidId pid), w') \<and>
         (\<exists>ks. map (\<lambda>item. ObjectId B (product_id item)) pre = map Some ks \<and>
               calls w' = calls w @ map FindOne ks) \<and>
         http_status (InvalidId pid) = 500"
proof -
  have "db w' = Some coll" using build_db [OF assms(5)] assms(1) by simp
  then have "build_line_items B w [] (items req) = (Inl (InvalidId pid), w')"
    using assms by (simp add: build_append)
  then have c: "create_checkout_session B (Some create) w req = (Inl (InvalidId pid), w')"
    by (simp add: create_checkout_session_def)
  from assms(1,2) c build_found_keys [OF assms(5)] show ?thesis
    by (simp add: get_product_def update_product_def delete_product_def)
qed

theorem malformed_id_uncaught_witness:
  "get_product sample_bson shop ''xyz'' = (Inl (InvalidId ''xyz''), shop) \<and>
   update_product sample_bson shop ''xyz'' tea = (Inl (InvalidId ''xyz''), shop) \<and>
   delete_product sample_bson shop ''xyz'' = (Inl (InvalidId ''xyz''), shop) \<and>
   create_checkout_session sample_bson (Some sample_gateway) shop
     (request [cart_tea, cart_malformed]) =
     (Inl (InvalidId ''xyz''), \<lparr>db = Some [(id_tea, model_dump tea)], calls = [FindOne id_tea]\<rparr>)"
proof -
  have a: "db shop = Some [(id_tea, model_dump tea)]" by (simp add: shop_def)
  have i: "items (request [cart_tea, cart_malformed]) = [cart_tea] @ cart_malformed # []"
    by (simp add: request_def)
  have p: "product_id cart_malformed = ''xyz''" by (simp add: cart_malformed_def)
  show ?thesis
    using malformed_id_uncaught [OF a ObjectId_malformed i p build_tea, of tea sample_gateway]
    by (simp add: called_def shop_def)
qed

text \<open>
  C5. With no credential at process start (the variable unset or empty) every call of
  create-session fails with status 400, whatever the cart, and neither the store nor the
  gateway is called: the world is returned as it was.
\<close>

theorem checkout_unavailable:
  "create_checkout_session B (stripe_at_start None sdk) w req =
     (Inl (HTTPException 400
        ''Stripe is not configured. Set STRIPE_SECRET_KEY environment variable.''), w) \<and>
   create_checkout_session B (stripe_at_start (Some []) sdk) w req =
     (Inl (HTTPException 400
        ''Stripe is not configured. Set STRIPE_SECRET_KEY environment variable.''), w)"
  by (simp add: create_checkout_session_def stripe_at_start_def)

theorem checkout_unavailable_witness:
  "fst (create_checkout_session sample_bson (stripe_at_start None (Some sample_gateway)) shop
          (request [cart_tea, cart_absent])) =
     Inl (HTTPException 400
        ''Stripe is not configured. Set STRIPE_SECRET_KEY environment variable.'') \<and>
   calls (snd (create_checkout_session sample_bson (stripe_at_start None (Some sample_gateway))
          shop (request [cart_tea, cart_absent]))) = []"
  using checkout_unavailable [of sample_bson "Some sample_gateway" shop
      "request [cart_tea, cart_absent]"]
  by (simp add: shop_def)

text \<open>
  C6. When the loop has built the line items, the gateway is called once, with card-only
  payment methods, mode \<open>payment\<close>, these line items and the caller's two URLs and
  email as they came. Its URL is returned as it is; its failure becomes status 500 with
  the gateway's message, and there is no second call.
\<close>

theorem gateway_call:
  assumes "build_line_items B w [] (items req) = (Inr lis, w')"
  shows "create_checkout_session B (Some create) w req =
           ((case create \<lparr>payment_method_types = [''card''], mode = ''payment'',
                           line_items = lis, arg_success_url = success_url req,
                           arg_cancel_url = cancel_url req,
                           arg_customer_email = customer_email req\<rparr> of
               Inl msg \<Rightarrow> Inl (HTTPException 500 msg)
             | Inr url \<Rightarrow> Inr url),
            called (SessionCreate \<lparr>payment_method_types = [''card''], mode = ''payment'',
                           line_items = lis, arg_success_url = success_url req,
                           arg_cancel_url = cancel_url req,
                           arg_customer_email = customer_email req\<rparr>) w') \<and>
         filter is_gateway_call (calls (snd (create_checkout_session B (Some create) w req))) =
           filter is_gateway_call (calls w) @
           [SessionCreate \<lparr>payment_method_types = [''card''], mode = ''payment'',
                           line_items = lis, arg_success_url = success_url req,
                           arg_cancel_url = cancel_url req,
                           arg_customer_email = customer_email req\<rparr>]"
proof -
  let ?args = "\<lparr>payment_method_types = [''card''], mode = ''payment'',
                 line_items = lis, arg_success_url = success_url req,
                 arg_cancel_url = cancel_url req,
                 arg_customer_email = customer_email req\<rparr>"
  have run: "create_checkout_session B (Some create) w req =
      ((case create ?args of Inl msg \<Rightarrow> Inl (HTTPException 500 msg) | Inr url \<Rightarrow> Inr url),
       called (SessionCreate ?args) w')"
    using assms by (simp add: create_checkout_session_def Let_def split: sum.splits)
  have "filter is_gateway_call (calls w') = filter is_gateway_call (calls w)"
    using assms by (rule build_no_gateway_call)
  then have "filter is_gateway_call (calls (called (SessionCreate ?args) w')) =
      filter is_gateway_call (calls w) @ [SessionCreate ?args]"
    by simp
  with run show ?thesis by simp
qed

theorem gateway_call_witness:
  "create_checkout_session sample_bson (Some sample_gateway) shop (request [cart_tea]) =
     (Inr ''https://pay.example/session'',
      \<lparr>db = Some [(id_tea, model_dump tea)],
       calls = [FindOne id_tea,
                SessionCreate \<lparr>payment_method_types = [''card''], mode = ''payment'',
                  line_items = [tea_line_item],
                  arg_success_url = ''https://shop.example/ok'',
                  arg_cancel_url = ''https://shop.example/back'',
                  arg_customer_email = Some ''ann@example.org''\<rparr>]\<rparr>) \<and>
   fst (create_checkout_session sample_bson (Some failing_gateway) shop (request [cart_tea])) =
     Inl (HTTPException 500 ''card_declined'')"
proof -
  have b: "build_line_items sample_bson shop [] (items (request [cart_tea])) =
      (Inr [tea_line_item], called (FindOne id_tea) shop)"
    using build_tea by (simp add: request_def)
  show ?thesis
    using gateway_call [OF b, of sample_gateway] gateway_call [OF b, of failing_gateway]
    by (simp add: request_def sample_gateway_def failing_gateway_def called_def shop_def)
qed

text \<open>
  C7. The claim: for a cart whose items all resolve, the list has one entry per cart
  item, in cart order, each with a currency code, the product's title, at most one
  image, the minor-unit unit price and the quantity. For the cart of two units of the
  product priced 19.99 the loop returns one entry with currency, title, first image
  and quantity as claimed, but with the amount 1998: line 153 truncates, and the
  minor-unit price \<open>round(price * 100)\<close> is 1999.
\<close>

theorem line_item_amount_19_99:
  "resolve sample_bson [(id_tea, model_dump tea_19_99)] cart_tea = Some (model_dump tea_19_99) \<and>
   build_line_items sample_bson shop_19_99 [] [cart_tea] =
     (Inr [\<lparr>li_price_data =
              \<lparr>currency = ''usd'',
               product_data = \<lparr>pd_name = ''Green Tea'', pd_images = [''a.png'']\<rparr>,
               unit_amount = 1998\<rparr>,
            li_quantity = 2\<rparr>],
      called (FindOne id_tea) shop_19_99) \<and>
   py_round (fmul (price tea_19_99) (float_of_int 100)) = Inr 1999"
proof -
  have m: "make_line_item (model_dump tea_19_99) cart_tea =
      Inr \<lparr>li_price_data =
              \<lparr>currency = ''usd'',
               product_data = \<lparr>pd_name = ''Green Tea'', pd_images = [''a.png'']\<rparr>,
               unit_amount = 1998\<rparr>,
            li_quantity = 2\<rparr>"
    using unit_amount_tea_19_99
    by (simp add: make_line_item_def model_dump_def tea_19_99_def tea_def cart_tea_def)
  have r: "resolve sample_bson [(id_tea, model_dump tea_19_99)] cart_tea =
      Some (model_dump tea_19_99)"
    using ObjectId_tea by (simp add: resolve_def cart_tea_def)
  have b: "build_line_items sample_bson shop_19_99 [] [cart_tea] =
      (Inr [\<lparr>li_price_data =
               \<lparr>currency = ''usd'',
                product_data = \<lparr>pd_name = ''Green Tea'', pd_images = [''a.png'']\<rparr>,
                unit_amount = 1998\<rparr>,
             li_quantity = 2\<rparr>],
       called (FindOne id_tea) shop_19_99)"
    using m ObjectId_tea by (simp add: shop_19_99_def cart_tea_def Let_def)
  have p: "price tea_19_99 = price_19_99" by (simp add: tea_19_99_def)
  from r b p round_tea_19_99 show ?thesis by simp
qed

text \<open>
  C8. For a well-formed identifier with no record in the store, get, update and delete
  answer 404; update and delete decide it by a count of zero matches.
\<close>

theorem absent_id_404:
  assumes "db w = Some coll" and "ObjectId B pid = Some k" and "map_of coll k = None"
  shows "get_product B w pid =
           (Inl (HTTPException 404 ''Product not found''), called (FindOne k) w) \<and>
         update_product B w pid payload =
           (Inl (HTTPException 404 ''Product not found''), called (UpdateOne k) w) \<and>
         delete_product B w pid =
           (Inl (HTTPException 404 ''Product not found''), called (DeleteOne k) w) \<and>
         fst (update_one coll k (model_dump payload)) = 0 \<and>
         fst (delete_one coll k) = 0 \<and>
         http_status (HTTPException 404 ''Product not found'') = 404"
proof -
  have w: "w\<lparr>db := Some coll\<rparr> = w" using assms(1) by simp
  have g: "get_product B w pid =
      (Inl (HTTPException 404 ''Product not found''), called (FindOne k) w)"
    using assms by (simp add: get_product_def find_one_def Let_def)
  have u: "update_product B w pid payload =
      (Inl (HTTPException 404 ''Product not found''), called (UpdateOne k) w)"
    using assms w by (simp add: update_product_def update_one_absent Let_def)
  have d: "delete_product B w pid =
      (Inl (HTTPException 404 ''Product not found''), called (DeleteOne k) w)"
    using assms w by (simp add: delete_product_def delete_one_absent Let_def)
  from g u d assms(3) show ?thesis
    by (simp add: update_one_absent delete_one_absent)
qed

theorem absent_id_404_witness:
  "fst (get_product sample_bson shop id_absent) = Inl (HTTPException 404 ''Product not found'') \<and>
   fst (update_product sample_bson shop id_absent tea) =
     Inl (HTTPException 404 ''Product not found'') \<and>
   fst (delete_product sample_bson shop id_absent) =
     Inl (HTTPException 404 ''Product not found'')"
proof -
  have a: "db shop = Some [(id_tea, model_dump tea)]" by (simp add: shop_def)
  have c: "map_of [(id_tea, model_dump tea)] id_absent = None"
    by (simp add: id_tea_def id_absent_def)
  show ?thesis
    using absent_id_404 [OF a ObjectId_absent c, of tea] by simp
qed

text \<open>
  C9. A resolved product without a price gives a line item of amount 0, and one without
  a title gives a line item named \<open>Product\<close>; in both cases the loop goes on to the
  remaining items with that line item appended.
\<close>

theorem missing_price_and_title:
  assumes "db w = Some coll" and "ObjectId B (product_id item) = Some k"
    and "map_of coll k = Some d"
  shows "(doc_price d = None \<longrightarrow>
            (\<exists>li. make_line_item d item = Inr li \<and> unit_amount (li_price_data li) = 0 \<and>
               build_line_items B w acc (item # rest) =
                 build_line_items B (called (FindOne k) w) (acc @ [li]) rest)) \<and>
         (doc_title d = None \<longrightarrow> (\<forall>a. unit_amount_of d = Inr a \<longrightarrow>
            (\<exists>li. make_line_item d item = Inr li \<and>
               pd_name (product_data (li_price_data li)) = ''Product'' \<and>
               build_line_items B w acc (item # rest) =
                 build_line_items B (called (FindOne k) w) (acc @ [li]) rest)))"
proof (intro conjI impI allI)
  assume "doc_price d = None"
  then have "unit_amount_of d = Inr 0" by (rule unit_amount_of_zero)
  then obtain li where li: "make_line_item d item = Inr li"
    and z: "unit_amount (li_price_data li) = 0"
    by (auto simp: make_line_item_def)
  from li assms have "build_line_items B w acc (item # rest) =
      build_line_items B (called (FindOne k) w) (acc @ [li]) rest"
    by (simp add: Let_def)
  with li z show "\<exists>li. make_line_item d item = Inr li \<and> unit_amount (li_price_data li) = 0 \<and>
      build_line_items B w acc (item # rest) =
        build_line_items B (called (FindOne k) w) (acc @ [li]) rest"
    by blast
next
  fix a
  assume t: "doc_title d = None" and a: "unit_amount_of d = Inr a"
  then obtain li where li: "make_line_item d item = Inr li"
    and n: "pd_name (product_data (li_price_data li)) = ''Product''"
    by (auto simp: make_line_item_def)
  from li assms have "build_line_items B w acc (item # rest) =
      build_line_items B (called (FindOne k) w) (acc @ [li]) rest"
    by (simp add: Let_def)
  with li n show "\<exists>li. make_line_item d item = Inr li \<and>
      pd_name (product_data (li_price_data li)) = ''Product'' \<and>
      build_line_items B w acc (item # rest) =
        build_line_items B (called (FindOne k) w) (acc @ [li]) rest"
    by blast
qed

theorem missing_price_and_title_witness:
  "build_line_items sample_bson (shop\<lparr>db := Some [(id_tea, bare)]\<rparr>) [] [cart_tea] =
     (Inr [\<lparr>li_price_data =
              \<lparr>currency = ''usd'',
               product_data = \<lparr>pd_name = ''Product'', pd_images = []\<rparr>,
               unit_amount = 0\<rparr>,
            li_quantity = 2\<rparr>],
      called (FindOne id_tea) (shop\<lparr>db := Some [(id_tea, bare)]\<rparr>))"
proof -
  have a: "db (shop\<lparr>db := Some [(id_tea, bare)]\<rparr>) = Some [(id_tea, bare)]" by simp
  have k: "ObjectId sample_bson (product_id cart_tea) = Some id_tea"
    using ObjectId_tea by (simp add: cart_tea_def)
  have d: "map_of [(id_tea, bare)] id_tea = Some bare" by simp
  have p: "doc_price bare = None" by (simp add: bare_def)
  have m: "make_line_item bare cart_tea =
      Inr \<lparr>li_price_data =
              \<lparr>currency = ''usd'',
               product_data = \<lparr>pd_name = ''Product'', pd_images = []\<rparr>,
               unit_amount = 0\<rparr>,
            li_quantity = 2\<rparr>"
    using unit_amount_of_zero [OF p] by (simp add: make_line_item_def bare_def cart_tea_def)
  from missing_price_and_title [OF a k d, of "[]" "[]"] p m show ?thesis
    by simp
qed



end
